theory Spec2Isabelle
  imports Complex_Main "HOL-Library.Word"
begin

section \<open>The flow solver program: what \<open>main\<close> reads and what it does\<close>

text \<open>
  \<open>nZone\<close>, \<open>nDim\<close>, \<open>nTimeInstances\<close> and \<open>nGeomZones\<close> are declared
  \<open>unsigned short\<close> in \<open>main\<close>: 16-bit words, whose arithmetic wraps around.
\<close>

type_synonym ushort = "16 word"

text \<open>
  The enumerations of solver kinds and of unsteady modes are declared in a header that is
  not among the sources. \<open>main\<close> compares the solver kind with four enumerators and the unsteady mode with
  one; every other enumerator is \<open>OTHER_SOLVER k\<close>, respectively \<open>OTHER_UNSTEADY k\<close>.
\<close>

datatype ENUM_SOLVER =
  FEM_ELASTICITY | POISSON_EQUATION | WAVE_EQUATION | HEAT_EQUATION | OTHER_SOLVER nat

datatype ENUM_UNSTEADY = HARMONIC_BALANCE | OTHER_UNSTEADY nat

text \<open>The configuration object, as \<open>main\<close> sees it through its getters.\<close>

record CConfig =
  GetKind_Solver :: ENUM_SOLVER
  GetUnsteady_Simulation :: ENUM_UNSTEADY
  GetFSI_Simulation :: bool
  GetnTimeInstances :: ushort
  GetMesh_FileName :: string
  GetMesh_FileFormat :: nat

text \<open>
  The files \<open>main\<close> reads: \<open>new_CConfig\<close> is the constructor \<open>CConfig(name, SU2_CFD)\<close>
  parsing the configuration file of that name, \<open>GetnZone\<close> and \<open>GetnDim\<close> are the static
  functions of \<open>CConfig\<close> that read the zone count and the dimension from the mesh file.
\<close>

record files =
  new_CConfig :: "string \<Rightarrow> CConfig"
  GetnZone :: "string \<Rightarrow> nat \<Rightarrow> CConfig \<Rightarrow> ushort"
  GetnDim :: "string \<Rightarrow> nat \<Rightarrow> ushort"

text \<open>The five classes derived from \<open>CDriver\<close> that \<open>main\<close> instantiates.\<close>

datatype driver_class = CGeneralDriver | CHBDriver | CGeneralHBDriver | CFSIDriver | CFluidDriver

text \<open>A driver object: its class and the three arguments its constructor received.\<close>

record CDriver =
  dclass :: driver_class
  confFile :: string
  val_nZone :: ushort
  val_nDim :: ushort

text \<open>
  What a run of \<open>main\<close> does, in order: the objects it creates and deletes, the driver
  methods it calls, what it prints, and how the process ends. Calls into the classes
  outside this file are recorded as events; what they do inside is not part of \<open>main\<close>.
  The blocks under \<open>HAVE_MPI\<close> (lines 47-52 and 146-150) are left out: they set up and
  release the message passing buffer and take no part in the choice or the life of the
  driver.
\<close>

datatype event =
  New_CConfig string
  | Cout string
  | Exit int
  | New_Driver CDriver
  | Delete_CConfig
  | StartSolver CDriver
  | Postprocessing CDriver
  | Delete_Driver CDriver
  | Return int

text \<open>The macros of \<open><cstdlib>\<close>, with the values every platform SU2 builds on gives them.\<close>

definition EXIT_SUCCESS :: int where
  "EXIT_SUCCESS = 0"

definition EXIT_FAILURE :: int where
  "EXIT_FAILURE = 1"

text \<open>
  Lines 61-74: the local variables of \<open>main\<close> once the configuration and the mesh header
  are read. The configuration file is the only command line argument, or \<open>default.cfg\<close>
  (\<open>argv\<close> includes the program's name, so \<open>argc = length argv\<close>). The name is
  copied as it is; the bound \<open>MAX_STRING_SIZE\<close> of the buffer is not modelled.
\<close>

record locals =
  the_config_file_name :: string
  the_config :: CConfig
  the_nZone :: ushort
  the_nDim :: ushort
  the_fsi :: bool

definition main_locals :: "files \<Rightarrow> string list \<Rightarrow> locals" where
  "main_locals fs argv =
     (let config_file_name = (if length argv = 2 then argv ! 1 else ''default.cfg'');
          config = new_CConfig fs config_file_name
      in \<lparr>the_config_file_name = config_file_name,
          the_config = config,
          the_nZone = GetnZone fs (GetMesh_FileName config) (GetMesh_FileFormat config) config,
          the_nDim = GetnDim fs (GetMesh_FileName config) (GetMesh_FileFormat config),
          the_fsi = GetFSI_Simulation config\<rparr>)"

text \<open>Line 80: the solver kinds of the first branch, which run on a single zone only.\<close>

definition single_zone_only :: "ENUM_SOLVER \<Rightarrow> bool" where
  "single_zone_only k \<longleftrightarrow>
     k = FEM_ELASTICITY \<or> k = POISSON_EQUATION \<or> k = WAVE_EQUATION \<or> k = HEAT_EQUATION"

text \<open>
  Lines 80-128, the conditions: the cascade \<open>if \<dots> else if \<dots> else\<close> enters the first
  branch whose condition holds, and each branch is the one of a driver class.
\<close>

definition driver_selection :: "CConfig \<Rightarrow> ushort \<Rightarrow> bool \<Rightarrow> driver_class" where
  "driver_selection config nZone fsi =
     (if single_zone_only (GetKind_Solver config) then CGeneralDriver
      else if GetUnsteady_Simulation config = HARMONIC_BALANCE \<and> nZone = 1 then CHBDriver
      else if GetUnsteady_Simulation config = HARMONIC_BALANCE \<and> nZone > 1 then CGeneralHBDriver
      else if nZone = 2 \<and> fsi then CFSIDriver
      else CFluidDriver)"

text \<open>
  Lines 80-128, the bodies of the branches: the events of the branch, and either the status
  \<open>exit\<close> ended the process with (\<open>Inl\<close>) or the driver object \<open>new\<close> created (\<open>Inr\<close>).
  In the first branch \<open>exit\<close> comes before \<open>new\<close>. In the third branch the product is
  assigned to an \<open>unsigned short\<close>, so it is the product of 16-bit words, modulo \<open>2^16\<close>.
  (C++ multiplies the two counts as \<open>int\<close>; a product beyond the range of \<open>int\<close>, which
  takes both counts above 32767, is undefined there, and wraps as well in practice.)
\<close>

definition driver_new ::
  "driver_class \<Rightarrow> string \<Rightarrow> ushort \<Rightarrow> ushort \<Rightarrow> event list \<times> (int + CDriver)" where
  "driver_new c name n nDim =
     (let d = \<lparr>dclass = c, confFile = name, val_nZone = n, val_nDim = nDim\<rparr>
      in ([New_Driver d], Inr d))"

fun driver_branch ::
  "driver_class \<Rightarrow> CConfig \<Rightarrow> string \<Rightarrow> ushort \<Rightarrow> ushort \<Rightarrow> event list \<times> (int + CDriver)" where
  "driver_branch CGeneralDriver config config_file_name nZone nDim =
     (if nZone > 1
      then ([Cout ''The required solver doesn't support multizone simulations'', Exit EXIT_FAILURE],
            Inl EXIT_FAILURE)
      else driver_new CGeneralDriver config_file_name nZone nDim)"
| "driver_branch CHBDriver config config_file_name nZone nDim =
     (let nTimeInstances = GetnTimeInstances config
      in driver_new CHBDriver config_file_name nTimeInstances nDim)"
| "driver_branch CGeneralHBDriver config config_file_name nZone nDim =
     (let nGeomZones = nZone;
          nTimeInstances = GetnTimeInstances config * nGeomZones
      in driver_new CGeneralHBDriver config_file_name nTimeInstances nDim)"
| "driver_branch CFSIDriver config config_file_name nZone nDim =
     driver_new CFSIDriver config_file_name nZone nDim"
| "driver_branch CFluidDriver config config_file_name nZone nDim =
     driver_new CFluidDriver config_file_name nZone nDim"

text \<open>
  Lines 130-152, after a driver was created: the configuration is deleted, the driver
  solves, postprocesses and is deleted (the pointer \<open>driver\<close> is \<open>Some d\<close> here, \<open>None\<close>
  being \<open>NULL\<close>), and \<open>main\<close> returns.
\<close>

definition main_run :: "CDriver \<Rightarrow> event list" where
  "main_run d =
     (let driver = Some d
      in [Delete_CConfig, StartSolver d, Postprocessing d]
         @ (if driver \<noteq> None then [Delete_Driver d] else [])
         @ [Return EXIT_SUCCESS])"

text \<open>
  \<open>main\<close>: the trace of the run and the exit status of the process. After \<open>exit\<close> nothing
  else of \<open>main\<close> runs.
\<close>

definition main :: "files \<Rightarrow> string list \<Rightarrow> event list \<times> int" where
  "main fs argv =
     (let l = main_locals fs argv;
          (created, r) =
            driver_branch (driver_selection (the_config l) (the_nZone l) (the_fsi l))
              (the_config l) (the_config_file_name l) (the_nZone l) (the_nDim l)
      in case r of
           Inl status \<Rightarrow> (New_CConfig (the_config_file_name l) # created, status)
         | Inr d \<Rightarrow> (New_CConfig (the_config_file_name l) # created @ main_run d, EXIT_SUCCESS))"

text \<open>
  When the cascade of lines 80-128 enters the branch of a class: the condition of the
  branch holds and the conditions of the branches before it do not.
\<close>

fun branch_fires :: "driver_class \<Rightarrow> CConfig \<Rightarrow> ushort \<Rightarrow> bool \<Rightarrow> bool" where
  "branch_fires CGeneralDriver config nZone fsi \<longleftrightarrow>
     single_zone_only (GetKind_Solver config)"
| "branch_fires CHBDriver config nZone fsi \<longleftrightarrow>
     \<not> single_zone_only (GetKind_Solver config)
     \<and> (GetUnsteady_Simulation config = HARMONIC_BALANCE \<and> nZone = 1)"
| "branch_fires CGeneralHBDriver config nZone fsi \<longleftrightarrow>
     \<not> single_zone_only (GetKind_Solver config)
     \<and> \<not> (GetUnsteady_Simulation config = HARMONIC_BALANCE \<and> nZone = 1)
     \<and> (GetUnsteady_Simulation config = HARMONIC_BALANCE \<and> nZone > 1)"
| "branch_fires CFSIDriver config nZone fsi \<longleftrightarrow>
     \<not> single_zone_only (GetKind_Solver config)
     \<and> \<not> (GetUnsteady_Simulation config = HARMONIC_BALANCE \<and> nZone = 1)
     \<and> \<not> (GetUnsteady_Simulation config = HARMONIC_BALANCE \<and> nZone > 1)
     \<and> (nZone = 2 \<and> fsi)"
| "branch_fires CFluidDriver config nZone fsi \<longleftrightarrow>
     \<not> single_zone_only (GetKind_Solver config)
     \<and> \<not> (GetUnsteady_Simulation config = HARMONIC_BALANCE \<and> nZone = 1)
     \<and> \<not> (GetUnsteady_Simulation config = HARMONIC_BALANCE \<and> nZone > 1)
     \<and> \<not> (nZone = 2 \<and> fsi)"

text \<open>
  The second argument of the constructor in the branch of each class (lines 89, 97, 112,
  119 and 126).
\<close>

fun instances :: "driver_class \<Rightarrow> CConfig \<Rightarrow> ushort \<Rightarrow> ushort" where
  "instances CHBDriver config nZone = GetnTimeInstances config"
| "instances CGeneralHBDriver config nZone = GetnTimeInstances config * nZone"
| "instances c config nZone = nZone"

text \<open>The events that touch a driver object.\<close>

fun is_New_Driver :: "event \<Rightarrow> bool" where
  "is_New_Driver (New_Driver d) = True"
| "is_New_Driver e = False"


fun driver_event :: "event \<Rightarrow> bool" where
  "driver_event (New_Driver d) = True"
| "driver_event (StartSolver d) = True"
| "driver_event (Postprocessing d) = True"
| "driver_event (Delete_Driver d) = True"
| "driver_event e = False"

fun is_StartSolver :: "event \<Rightarrow> bool" where
  "is_StartSolver (StartSolver d) = True"
| "is_StartSolver e = False"

subsection \<open>Fatal errors inside the calls of \<open>main\<close>\<close>

text \<open>
  The calls of \<open>main\<close> into the classes outside the file, in the order in which \<open>main\<close>
  makes them (lines 69, 71, 72, the constructor of the branch, 130, 135, 139 and 141). The
  getters of the configuration object only read a field.
\<close>

datatype call_site =
  Call_New_CConfig | Call_GetnZone | Call_GetnDim | Call_New_Driver | Call_Delete_CConfig
  | Call_StartSolver | Call_Postprocessing | Call_Delete_Driver

text \<open>How a process ends before \<open>main\<close> returns: \<open>exit\<close> with a status, or an abort.\<close>

datatype ending = Exit_With int | Abort

definition nonzero_or_abort :: "ending \<Rightarrow> bool" where
  "nonzero_or_abort e = (case e of Exit_With c \<Rightarrow> c \<noteq> 0 | Abort \<Rightarrow> True)"

text \<open>
  Modelled from the spec: a fatal error raised inside one of these calls (an unreadable
  mesh, an inverted element, \<dots>), whose code is not among the sources. It ends the
  process there, the call does not return (sections 5 and 7), with a non-zero exit code or
  an abort (section 6): by \<open>exit(EXIT_FAILURE)\<close>, as \<open>main\<close> itself does at line 86, or
  by an abort.
\<close>

datatype fatal_error = By_Exit | By_Abort

fun raised :: "fatal_error \<Rightarrow> ending" where
  "raised By_Exit = Exit_With EXIT_FAILURE"
| "raised By_Abort = Abort"

text \<open>
  A step of the process: an event of \<open>main\<close> that took place, or a call that raised a
  fatal error. And the end of the process: \<open>main\<close> returned a status, or the process
  ended before.
\<close>

datatype step = Did event | Failed call_site ending

datatype process_end = Returned int | Ended ending

text \<open>
  One call into a class outside the file, followed by the rest of \<open>main\<close>: if the call
  raises a fatal error (\<open>faults\<close> says which calls do in this run), the process ends
  there; otherwise the events of the call take place and \<open>main\<close> goes on.
\<close>

definition external ::
  "(call_site \<Rightarrow> fatal_error option) \<Rightarrow> call_site \<Rightarrow> event list \<Rightarrow> step list \<times> process_end
   \<Rightarrow> step list \<times> process_end" where
  "external faults site evs rest =
     (case faults site of
        Some f \<Rightarrow> ([Failed site (raised f)], Ended (raised f))
      | None \<Rightarrow> (map Did evs @ fst rest, snd rest))"

text \<open>
  \<open>main\<close> once more, lines 61-152, with every call into a class outside the file able to
  raise a fatal error. The branch of lines 80-128 is \<open>driver_branch\<close> as before: it ends
  the process with \<open>exit\<close> itself, or calls the constructor of its class.
\<close>

definition main_process ::
  "(call_site \<Rightarrow> fatal_error option) \<Rightarrow> files \<Rightarrow> string list \<Rightarrow> step list \<times> process_end" where
  "main_process faults fs argv =
     (let l = main_locals fs argv in
      external faults Call_New_CConfig [New_CConfig (the_config_file_name l)]
       (external faults Call_GetnZone []
         (external faults Call_GetnDim []
           (let (created, r) =
                  driver_branch (driver_selection (the_config l) (the_nZone l) (the_fsi l))
                    (the_config l) (the_config_file_name l) (the_nZone l) (the_nDim l)
            in case r of
                 Inl status \<Rightarrow> (map Did created, Ended (Exit_With status))
               | Inr d \<Rightarrow>
                   external faults Call_New_Driver created
                    (external faults Call_Delete_CConfig [Delete_CConfig]
                      (external faults Call_StartSolver [StartSolver d]
                        (external faults Call_Postprocessing [Postprocessing d]
                          (let driver = Some d;
                               finish = ([Did (Return EXIT_SUCCESS)], Returned EXIT_SUCCESS)
                           in if driver \<noteq> None
                              then external faults Call_Delete_Driver [Delete_Driver d] finish
                              else finish))))))))"

text \<open>The ending a step brings about, if it is one that ends the process.\<close>

fun ending_of :: "step \<Rightarrow> ending option" where
  "ending_of (Failed site e) = Some e"
| "ending_of (Did (Exit c)) = Some (Exit_With c)"
| "ending_of (Did e) = None"

subsection \<open>Concrete runs\<close>

text \<open>
  A configuration and a mesh with the given solver kind, unsteady mode, coupling flag,
  time instances per zone and zone count, in three dimensions; and the command line of a
  run without argument.
\<close>

definition config_of :: "ENUM_SOLVER \<Rightarrow> ENUM_UNSTEADY \<Rightarrow> bool \<Rightarrow> ushort \<Rightarrow> CConfig" where
  "config_of k u f n =
     \<lparr>GetKind_Solver = k, GetUnsteady_Simulation = u, GetFSI_Simulation = f,
      GetnTimeInstances = n, GetMesh_FileName = ''mesh.su2'', GetMesh_FileFormat = 0\<rparr>"

definition files_of :: "ENUM_SOLVER \<Rightarrow> ENUM_UNSTEADY \<Rightarrow> bool \<Rightarrow> ushort \<Rightarrow> ushort \<Rightarrow> files" where
  "files_of k u f n z =
     \<lparr>new_CConfig = (\<lambda>name. config_of k u f n),
      GetnZone = (\<lambda>mesh format config. z),
      GetnDim = (\<lambda>mesh format. 3)\<rparr>"

definition no_argument :: "string list" where
  "no_argument = [''SU2_CFD'']"

text \<open>
  Runs in which no call raises a fatal error, in which the mesh file cannot be read, and in
  which the solver finds an inverted element and aborts.
\<close>

definition no_fault :: "call_site \<Rightarrow> fatal_error option" where
  "no_fault site = None"

definition mesh_unreadable :: "call_site \<Rightarrow> fatal_error option" where
  "mesh_unreadable site = (if site = Call_GetnZone then Some By_Exit else None)"

definition inverted_element :: "call_site \<Rightarrow> fatal_error option" where
  "inverted_element site = (if site = Call_StartSolver then Some By_Abort else None)"

section \<open>CDeformationDriver.hpp: the mesh deformation driver\<close>

text \<open>
  The header declares the class \<open>CDeformationDriver\<close>. Of its member functions only
  \<open>GetVertexUnitNormal\<close> has its body there, and \<open>GetVertexNormal\<close> its default
  argument; the other bodies are in a file that is not among the sources. What is needed
  of them is modelled from the specification of the repository, and each such definition
  says so.
\<close>

subsection \<open>Construction: the preprocessing pipeline\<close>

text \<open>The protected preprocessing member functions (lines 341-370 of the header).\<close>

datatype stage =
  SetContainers_Null
  | Input_Preprocessing
  | Geometrical_Preprocessing
  | Output_Preprocessing
  | Solver_Preprocessing
  | Numerics_Preprocessing

text \<open>The containers of the registry that the stages populate (lines 56-63 of the header).\<close>

datatype container =
  config_container | geometry_container | output_container | solver_container
  | numerics_container

text \<open>
  Modelled from the spec: the state of the driver as far as the pipeline goes (the
  Container Registry of section 3). \<open>populated\<close> lists the containers that are not null,
  \<open>stage_log\<close> the stages that have run on this object, in order.
\<close>

record deformation_driver =
  stage_log :: "stage list"
  populated :: "container list"

text \<open>
  Modelled from the spec: what each stage allocates (section 4.1). \<open>SetContainers_Null\<close>
  allocates nothing, it sets every handle to null.
\<close>

fun produces :: "stage \<Rightarrow> container list" where
  "produces SetContainers_Null = []"
| "produces Input_Preprocessing = [config_container]"
| "produces Geometrical_Preprocessing = [geometry_container]"
| "produces Output_Preprocessing = [output_container]"
| "produces Solver_Preprocessing = [solver_container]"
| "produces Numerics_Preprocessing = [numerics_container]"

text \<open>
  How a stage can go wrong: a fatal error of the stage, which ends the run (section 4.1:
  unreadable mesh, malformed connectivity, ...), or a call that the spec leaves undefined.
\<close>

datatype fault = Fatal stage | Undefined stage

text \<open>
  Modelled from the spec: one stage (section 4.1). Calling a stage twice without an
  intervening teardown is undefined: that is a stage whose container is already
  populated, or \<open>SetContainers_Null\<close> on a registry that holds a container. Each of the
  five stages after \<open>SetContainers_Null\<close> may fail fatally; \<open>fails\<close> says which do in
  this run. A stage that completes is logged and its container populated.
\<close>

definition run_stage ::
  "(stage \<Rightarrow> bool) \<Rightarrow> stage \<Rightarrow> deformation_driver \<Rightarrow> (fault \<times> stage list) + deformation_driver" where
  "run_stage fails st d =
     (if st = SetContainers_Null then
        (if populated d \<noteq> [] then Inl (Undefined st, stage_log d)
         else Inr (d\<lparr>stage_log := stage_log d @ [st], populated := []\<rparr>))
      else if \<exists>c \<in> set (produces st). c \<in> set (populated d) then Inl (Undefined st, stage_log d)
      else if fails st then Inl (Fatal st, stage_log d)
      else Inr (d\<lparr>stage_log := stage_log d @ [st], populated := populated d @ produces st\<rparr>))"

text \<open>Stages one after the other; the first fault ends the run.\<close>

fun run_stages ::
  "(stage \<Rightarrow> bool) \<Rightarrow> stage list \<Rightarrow> deformation_driver \<Rightarrow> (fault \<times> stage list) + deformation_driver" where
  "run_stages fails [] d = Inr d"
| "run_stages fails (st # sts) d =
     (case run_stage fails st d of Inl f \<Rightarrow> Inl f | Inr d' \<Rightarrow> run_stages fails sts d')"

text \<open>
  Modelled from the spec: the constructor \<open>CDeformationDriver(confFile, MPICommunicator)\<close>,
  whose body is not among the sources. It runs the pipeline of section 4.1 on the new object:
  \<open>SetContainersNull \<rightarrow> InputPreprocessing \<rightarrow> GeometricalPreprocessing \<rightarrow>
  OutputPreprocessing \<rightarrow> SolverPreprocessing \<rightarrow> NumericsPreprocessing\<close>.
\<close>

definition CDeformationDriver_new ::
  "(stage \<Rightarrow> bool) \<Rightarrow> (fault \<times> stage list) + deformation_driver" where
  "CDeformationDriver_new fails =
     run_stages fails
       [SetContainers_Null, Input_Preprocessing, Geometrical_Preprocessing,
        Output_Preprocessing, Solver_Preprocessing, Numerics_Preprocessing]
       \<lparr>stage_log = [], populated = []\<rparr>"

text \<open>
  Modelled from the spec: the public member functions that drive the object after its
  construction (lines 81-91 of the header; sections 2 and 4.4: \<open>Run \<rightarrow> Output \<rightarrow>
  Postprocessing\<close>). \<open>Run\<close> deforms the mesh and \<open>Output\<close> writes it, neither runs a
  preprocessing stage; \<open>Postprocessing\<close> is the teardown, it releases the containers.
\<close>

datatype public_call = Run_Call | Output_Call | Postprocessing_Call

fun call :: "deformation_driver \<Rightarrow> public_call \<Rightarrow> deformation_driver" where
  "call d Run_Call = d"
| "call d Output_Call = d"
| "call d Postprocessing_Call = d\<lparr>populated := []\<rparr>"

text \<open>The life of a driver object after its construction: any sequence of public calls.\<close>

definition lifetime :: "deformation_driver \<Rightarrow> public_call list \<Rightarrow> deformation_driver" where
  "lifetime d calls = foldl call d calls"

subsection \<open>The boundary coupling interface\<close>

type_synonym passivedouble = real

text \<open>
  Modelled from the spec: a vertex on a marker (section 3): the global index of its mesh
  point, whether it is a halo node (not owned by this process), its normal, and its
  displacement, the per-vertex entry of the Displacement Field.
\<close>

record CVertex =
  GlobalIndex :: nat
  halo :: bool
  Normal :: "passivedouble list"
  Bound_Disp :: "passivedouble list"

text \<open>
  Modelled from the spec: a boundary marker (section 3), with its tag, whether it is a
  deformable marker, and its vertices in the order of their local index.
\<close>

record CMarker =
  Marker_Tag :: string
  deformable :: bool
  vertex :: "CVertex list"

text \<open>Modelled from the spec: the mesh as the coupling interface sees it.\<close>

record CGeometry =
  nDim :: nat
  marker :: "CMarker list"

datatype coupling_error = Invalid_Marker | Invalid_Vertex | Size_Mismatch | Not_Deformable | Zero_Normal

text \<open>
  Modelled from the spec: \<open>GetVertexNormal\<close> (section 4.3: the outward unit or non-unit
  normal at a vertex). Without \<open>unitNormal\<close> it is the normal of the vertex as stored;
  with it, the normal divided by its Euclidean length. An index outside the mesh and a
  normal of length zero, which the spec does not cover, are errors here.
\<close>

definition GetVertexNormal ::
  "CGeometry \<Rightarrow> nat \<Rightarrow> nat \<Rightarrow> bool \<Rightarrow> coupling_error + passivedouble list" where
  "GetVertexNormal g iMarker iVertex unitNormal =
     (if iMarker \<ge> length (marker g) then Inl Invalid_Marker
      else if iVertex \<ge> length (vertex (marker g ! iMarker)) then Inl Invalid_Vertex
      else
        (let normal = Normal (vertex (marker g ! iMarker) ! iVertex)
         in if \<not> unitNormal then Inr normal
            else
              (let area = sqrt (\<Sum>x\<leftarrow>normal. x * x)
               in if area = 0 then Inl Zero_Normal else Inr (map (\<lambda>x. x / area) normal))))"

text \<open>Line 141 of the header: \<open>unitNormal\<close> defaults to \<open>false\<close> in a call with two arguments.\<close>

definition GetVertexNormal_default ::
  "CGeometry \<Rightarrow> nat \<Rightarrow> nat \<Rightarrow> coupling_error + passivedouble list" where
  "GetVertexNormal_default g iMarker iVertex = GetVertexNormal g iMarker iVertex False"

text \<open>Lines 143-145 of the header, the inline body.\<close>

definition GetVertexUnitNormal ::
  "CGeometry \<Rightarrow> nat \<Rightarrow> nat \<Rightarrow> coupling_error + passivedouble list" where
  "GetVertexUnitNormal g iMarker iVertex = GetVertexNormal g iMarker iVertex True"

text \<open>
  Modelled from the spec: \<open>GetDisplacementsMarker\<close> (section 4.3; line 275 of the header:
  \<open>nVertex*nDim\<close> values). The displacements of the vertices of the marker, vertex after
  vertex, as last written locally.
\<close>

definition GetDisplacementsMarker ::
  "CGeometry \<Rightarrow> nat \<Rightarrow> coupling_error + passivedouble list" where
  "GetDisplacementsMarker g iMarker =
     (if iMarker \<ge> length (marker g) then Inl Invalid_Marker
      else Inr (concat (map Bound_Disp (vertex (marker g ! iMarker)))))"

text \<open>
  The displacement of the vertex with local index \<open>i\<close> is
  \<open>values[i*nDim], \<dots>, values[i*nDim + nDim - 1]\<close>: each vertex takes the next \<open>nDim\<close>
  values.
\<close>

fun write_displacements :: "nat \<Rightarrow> CVertex list \<Rightarrow> passivedouble list \<Rightarrow> CVertex list" where
  "write_displacements n [] values = []"
| "write_displacements n (v # vs) values =
     v\<lparr>Bound_Disp := take n values\<rparr> # write_displacements n vs (drop n values)"

text \<open>
  The spec leaves to the implementation what a write on a marker that is not deformable
  does: nothing, or a reported error (sections 4.3 and 9).
\<close>

datatype nondeformable_write = Ignore_Write | Report_Error

text \<open>
  Modelled from the spec: \<open>SetDisplacementsMarker\<close> (section 4.3; line 282 of the header:
  \<open>nVertex*nDim\<close> values). On a deformable marker it stores the displacement of every
  vertex of the marker, locally and without communication; on another marker it follows
  the choice of the implementation. A marker outside the mesh and a vector of the wrong
  length, which the spec does not cover, are errors here.
\<close>

definition SetDisplacementsMarker ::
  "nondeformable_write \<Rightarrow> CGeometry \<Rightarrow> nat \<Rightarrow> passivedouble list \<Rightarrow> coupling_error + CGeometry" where
  "SetDisplacementsMarker choice g iMarker values =
     (if iMarker \<ge> length (marker g) then Inl Invalid_Marker
      else
        (let m = marker g ! iMarker in
         if length values \<noteq> length (vertex m) * nDim g then Inl Size_Mismatch
         else if \<not> deformable m then
           (case choice of Ignore_Write \<Rightarrow> Inr g | Report_Error \<Rightarrow> Inl Not_Deformable)
         else
           Inr (g\<lparr>marker :=
                  (marker g)[iMarker := m\<lparr>vertex := write_displacements (nDim g) (vertex m) values\<rparr>]\<rparr>)))"

subsection \<open>A concrete mesh\<close>

text \<open>
  A plane mesh with two markers: a deformable wall with an owned vertex and a halo vertex,
  and a far field that is not deformable, with one owned vertex. No displacement is set.
\<close>

definition wall :: CMarker where
  "wall = \<lparr>Marker_Tag = ''wall'', deformable = True,
     vertex = [\<lparr>GlobalIndex = 4, halo = False, Normal = [0, 2], Bound_Disp = [0, 0]\<rparr>,
               \<lparr>GlobalIndex = 7, halo = True, Normal = [0, 2], Bound_Disp = [0, 0]\<rparr>]\<rparr>"

definition farfield :: CMarker where
  "farfield = \<lparr>Marker_Tag = ''farfield'', deformable = False,
     vertex = [\<lparr>GlobalIndex = 9, halo = False, Normal = [3, 0], Bound_Disp = [0, 0]\<rparr>]\<rparr>"

definition plane_mesh :: CGeometry where
  "plane_mesh = \<lparr>nDim = 2, marker = [wall, farfield]\<rparr>"

definition no_stage_fails :: "stage \<Rightarrow> bool" where
  "no_stage_fails st = False"

definition geometry_fails :: "stage \<Rightarrow> bool" where
  "geometry_fails st \<longleftrightarrow> st = Geometrical_Preprocessing"

section \<open>Properties of \<open>main\<close>\<close>

subsection \<open>The two shapes of a run\<close>

lemma selection_fires:
  "branch_fires c config nZone fsi \<longleftrightarrow> driver_selection config nZone fsi = c"
  by (cases c) (auto simp: driver_selection_def)

lemma main_fatal:
  assumes "single_zone_only (GetKind_Solver (the_config (main_locals fs argv)))"
    and "the_nZone (main_locals fs argv) > 1"
  shows "main fs argv =
    ([New_CConfig (the_config_file_name (main_locals fs argv)),
      Cout ''The required solver doesn't support multizone simulations'',
      Exit EXIT_FAILURE], EXIT_FAILURE)"
  using assms by (simp add: main_def Let_def driver_selection_def)

lemma main_normal:
  assumes "\<not> (single_zone_only (GetKind_Solver (the_config (main_locals fs argv)))
             \<and> the_nZone (main_locals fs argv) > 1)"
    and "l = main_locals fs argv"
    and "c = driver_selection (the_config l) (the_nZone l) (the_fsi l)"
    and "d = \<lparr>dclass = c, confFile = the_config_file_name l,
              val_nZone = instances c (the_config l) (the_nZone l), val_nDim = the_nDim l\<rparr>"
  shows "main fs argv =
    ([New_CConfig (the_config_file_name l), New_Driver d, Delete_CConfig, StartSolver d,
      Postprocessing d, Delete_Driver d, Return EXIT_SUCCESS], EXIT_SUCCESS)"
  using assms by (auto simp add: main_def Let_def driver_selection_def driver_new_def main_run_def)

lemmas concrete_run =
  config_of_def files_of_def no_argument_def main_def main_locals_def driver_selection_def
  single_zone_only_def driver_new_def main_run_def Let_def EXIT_SUCCESS_def EXIT_FAILURE_def

lemma driver_branch_cases:
  "driver_branch (driver_selection config nZone fsi) config name nZone dm =
    (if single_zone_only (GetKind_Solver config) \<and> nZone > 1
     then ([Cout ''The required solver doesn't support multizone simulations'', Exit EXIT_FAILURE],
           Inl EXIT_FAILURE)
     else ([New_Driver \<lparr>dclass = driver_selection config nZone fsi, confFile = name,
               val_nZone = instances (driver_selection config nZone fsi) config nZone,
               val_nDim = dm\<rparr>],
           Inr \<lparr>dclass = driver_selection config nZone fsi, confFile = name,
               val_nZone = instances (driver_selection config nZone fsi) config nZone,
               val_nDim = dm\<rparr>))"
  by (auto simp add: driver_selection_def driver_new_def Let_def)


lemma main_process_cases:
  "main_process faults fs argv =
    (let l = main_locals fs argv;
         d = \<lparr>dclass = driver_selection (the_config l) (the_nZone l) (the_fsi l),
              confFile = the_config_file_name l,
              val_nZone = instances (driver_selection (the_config l) (the_nZone l) (the_fsi l))
                            (the_config l) (the_nZone l),
              val_nDim = the_nDim l\<rparr>;
         p0 = [Did (New_CConfig (the_config_file_name l))]
     in case faults Call_New_CConfig of Some f \<Rightarrow> ([Failed Call_New_CConfig (raised f)], Ended (raised f)) | None \<Rightarrow>
        (case faults Call_GetnZone of Some f \<Rightarrow> (p0 @ [Failed Call_GetnZone (raised f)], Ended (raised f)) | None \<Rightarrow>
        (case faults Call_GetnDim of Some f \<Rightarrow> (p0 @ [Failed Call_GetnDim (raised f)], Ended (raised f)) | None \<Rightarrow>
        (if single_zone_only (GetKind_Solver (the_config l)) \<and> the_nZone l > 1
         then (p0 @ [Did (Cout ''The required solver doesn't support multizone simulations''),
                     Did (Exit EXIT_FAILURE)], Ended (Exit_With EXIT_FAILURE))
         else
        (case faults Call_New_Driver of Some f \<Rightarrow> (p0 @ [Failed Call_New_Driver (raised f)], Ended (raised f)) | None \<Rightarrow>
        (case faults Call_Delete_CConfig of
           Some f \<Rightarrow> (p0 @ [Did (New_Driver d), Failed Call_Delete_CConfig (raised f)], Ended (raised f)) | None \<Rightarrow>
        (case faults Call_StartSolver of
           Some f \<Rightarrow> (p0 @ [Did (New_Driver d), Did Delete_CConfig, Failed Call_StartSolver (raised f)], Ended (raised f))
         | None \<Rightarrow>
        (case faults Call_Postprocessing of
           Some f \<Rightarrow> (p0 @ [Did (New_Driver d), Did Delete_CConfig, Did (StartSolver d),
                            Failed Call_Postprocessing (raised f)], Ended (raised f))
         | None \<Rightarrow>
        (case faults Call_Delete_Driver of
           Some f \<Rightarrow> (p0 @ [Did (New_Driver d), Did Delete_CConfig, Did (StartSolver d),
                            Did (Postprocessing d), Failed Call_Delete_Driver (raised f)], Ended (raised f))
         | None \<Rightarrow>
             (p0 @ [Did (New_Driver d), Did Delete_CConfig, Did (StartSolver d),
                    Did (Postprocessing d), Did (Delete_Driver d), Did (Return EXIT_SUCCESS)],
              Returned EXIT_SUCCESS))))))))))"
  by (simp add: main_process_def external_def driver_branch_cases Let_def split: option.splits)

subsection \<open>Selection of the driver\<close>

text \<open>
  C1. For every solver kind, unsteady mode, zone count and fluid-structure flag, the cascade
  of \<open>main\<close> enters the branch of exactly one of the five driver classes: the class selected
  is the one whose branch condition holds with none of the earlier ones, and exactly one
  class is in that case. The selection depends on the configuration through the solver
  kind and the unsteady mode only, and a run of \<open>main\<close> creates at most one driver, of the
  selected class. (In the branch of \<open>CGeneralDriver\<close> a zone count above one ends the run
  before the constructor is called: see C3.)
\<close>

theorem driver_selection_exactly_one:
  "(\<forall>c. driver_selection config nZone fsi = c \<longleftrightarrow> branch_fires c config nZone fsi)
   \<and> (\<exists>!c. branch_fires c config nZone fsi)
   \<and> (\<forall>config'. GetKind_Solver config' = GetKind_Solver config
         \<and> GetUnsteady_Simulation config' = GetUnsteady_Simulation config
         \<longrightarrow> driver_selection config' nZone fsi = driver_selection config nZone fsi)
   \<and> length (filter is_New_Driver (fst (main fs argv))) \<le> 1
   \<and> (\<forall>d. New_Driver d \<in> set (fst (main fs argv)) \<longrightarrow>
         dclass d = driver_selection (the_config (main_locals fs argv))
           (the_nZone (main_locals fs argv)) (the_fsi (main_locals fs argv)))"
proof (intro conjI)
  show "\<forall>c. driver_selection config nZone fsi = c \<longleftrightarrow> branch_fires c config nZone fsi"
    by (simp add: selection_fires)
  show "\<exists>!c. branch_fires c config nZone fsi"
    by (simp add: selection_fires)
  show "\<forall>config'. GetKind_Solver config' = GetKind_Solver config
         \<and> GetUnsteady_Simulation config' = GetUnsteady_Simulation config
         \<longrightarrow> driver_selection config' nZone fsi = driver_selection config nZone fsi"
    by (auto simp add: driver_selection_def)
  show "length (filter is_New_Driver (fst (main fs argv))) \<le> 1"
  proof (cases "single_zone_only (GetKind_Solver (the_config (main_locals fs argv)))
             \<and> the_nZone (main_locals fs argv) > 1")
    case True
    then show ?thesis by (simp add: main_fatal)
  next
    case False
    then show ?thesis by (simp add: main_normal [OF False refl refl refl])
  qed
  show "\<forall>d. New_Driver d \<in> set (fst (main fs argv)) \<longrightarrow>
         dclass d = driver_selection (the_config (main_locals fs argv))
           (the_nZone (main_locals fs argv)) (the_fsi (main_locals fs argv))"
  proof (cases "single_zone_only (GetKind_Solver (the_config (main_locals fs argv)))
             \<and> the_nZone (main_locals fs argv) > 1")
    case True
    then show ?thesis by (simp add: main_fatal)
  next
    case False
    then show ?thesis by (auto simp add: main_normal [OF False refl refl refl])
  qed
qed

theorem driver_selection_exactly_one_witness:
  "driver_selection (config_of (OTHER_SOLVER 0) HARMONIC_BALANCE False 4) 3 False = CGeneralHBDriver
   \<and> branch_fires CGeneralHBDriver (config_of (OTHER_SOLVER 0) HARMONIC_BALANCE False 4) 3 False
   \<and> \<not> branch_fires CFluidDriver (config_of (OTHER_SOLVER 0) HARMONIC_BALANCE False 4) 3 False
   \<and> driver_selection (config_of (OTHER_SOLVER 0) HARMONIC_BALANCE True 7) 3 False = CGeneralHBDriver
   \<and> New_Driver \<lparr>dclass = CGeneralHBDriver, confFile = ''default.cfg'', val_nZone = 12,
        val_nDim = 3\<rparr>
       \<in> set (fst (main (files_of (OTHER_SOLVER 0) HARMONIC_BALANCE False 4 3) no_argument))"
  using driver_selection_exactly_one
    [of "config_of (OTHER_SOLVER 0) HARMONIC_BALANCE False 4" 3 False
        "files_of (OTHER_SOLVER 0) HARMONIC_BALANCE False 4 3" no_argument]
  by (simp add: concrete_run)

lemma fatal_iff:
  "single_zone_only (GetKind_Solver config) \<and> nZone > 1 \<longleftrightarrow>
   driver_selection config nZone fsi = CGeneralDriver
   \<and> instances (driver_selection config nZone fsi) config nZone > 1"
  using selection_fires [of CGeneralDriver config nZone fsi] by auto

lemma fatal_same:
  assumes "driver_selection c' z' f' = driver_selection c z f"
    and "instances (driver_selection c' z' f') c' z' = instances (driver_selection c z f) c z"
  shows "(single_zone_only (GetKind_Solver c') \<and> z' > 1)
     \<longleftrightarrow> (single_zone_only (GetKind_Solver c) \<and> z > 1)"
proof -
  have "(single_zone_only (GetKind_Solver c') \<and> z' > 1) \<longleftrightarrow>
      (driver_selection c' z' f' = CGeneralDriver
       \<and> instances (driver_selection c' z' f') c' z' > 1)"
    by (rule fatal_iff)
  also have "\<dots> \<longleftrightarrow> (driver_selection c z f = CGeneralDriver
       \<and> instances (driver_selection c z f) c z > 1)"
    by (simp only: assms(2), simp only: assms(1))
  also have "\<dots> \<longleftrightarrow> (single_zone_only (GetKind_Solver c) \<and> z > 1)"
    by (rule fatal_iff [symmetric])
  finally show ?thesis .
qed

text \<open>
  C2, as stated, fails. With two zones, the fluid-structure flag set and a solver kind
  outside the single-zone kinds, a configuration in harmonic balance mode enters the third
  branch, which comes before the fluid-structure one: \<open>main\<close> creates a
  \<open>CGeneralHBDriver\<close>.
\<close>

theorem fsi_selection_counterexample:
  "\<not> single_zone_only (OTHER_SOLVER 0)
   \<and> driver_selection (config_of (OTHER_SOLVER 0) HARMONIC_BALANCE True 3) 2 True = CGeneralHBDriver
   \<and> main (files_of (OTHER_SOLVER 0) HARMONIC_BALANCE True 3 2) no_argument =
       ([New_CConfig ''default.cfg'',
         New_Driver \<lparr>dclass = CGeneralHBDriver, confFile = ''default.cfg'', val_nZone = 6, val_nDim = 3\<rparr>,
         Delete_CConfig,
         StartSolver \<lparr>dclass = CGeneralHBDriver, confFile = ''default.cfg'', val_nZone = 6, val_nDim = 3\<rparr>,
         Postprocessing \<lparr>dclass = CGeneralHBDriver, confFile = ''default.cfg'', val_nZone = 6, val_nDim = 3\<rparr>,
         Delete_Driver \<lparr>dclass = CGeneralHBDriver, confFile = ''default.cfg'', val_nZone = 6, val_nDim = 3\<rparr>,
         Return 0], 0)"
  by (simp add: concrete_run)

text \<open>
  C2, amended. With exactly two zones, the fluid-structure flag set, a solver kind outside
  the single-zone kinds and an unsteady mode other than harmonic balance, the selection is
  \<open>CFSIDriver\<close>, and \<open>main\<close> creates it from the file name, the zone count 2 and the
  dimension.
\<close>

theorem fsi_selection:
  assumes "the_nZone (main_locals fs argv) = 2"
    and "the_fsi (main_locals fs argv)"
    and "\<not> single_zone_only (GetKind_Solver (the_config (main_locals fs argv)))"
    and "GetUnsteady_Simulation (the_config (main_locals fs argv)) \<noteq> HARMONIC_BALANCE"
  shows "driver_selection (the_config (main_locals fs argv)) (the_nZone (main_locals fs argv))
           (the_fsi (main_locals fs argv)) = CFSIDriver
     \<and> New_Driver \<lparr>dclass = CFSIDriver, confFile = the_config_file_name (main_locals fs argv),
          val_nZone = 2, val_nDim = the_nDim (main_locals fs argv)\<rparr> \<in> set (fst (main fs argv))"
proof -
  have sel: "driver_selection (the_config (main_locals fs argv)) (the_nZone (main_locals fs argv))
           (the_fsi (main_locals fs argv)) = CFSIDriver"
    using assms by (simp add: driver_selection_def)
  have "\<not> (single_zone_only (GetKind_Solver (the_config (main_locals fs argv)))
             \<and> the_nZone (main_locals fs argv) > 1)"
    using assms by simp
  from main_normal [OF this refl refl refl] sel assms(1) show ?thesis by simp
qed

theorem fsi_selection_witness:
  "the_nZone (main_locals (files_of (OTHER_SOLVER 0) (OTHER_UNSTEADY 0) True 1 2) no_argument) = 2
   \<and> the_fsi (main_locals (files_of (OTHER_SOLVER 0) (OTHER_UNSTEADY 0) True 1 2) no_argument)
   \<and> \<not> single_zone_only (GetKind_Solver (the_config
         (main_locals (files_of (OTHER_SOLVER 0) (OTHER_UNSTEADY 0) True 1 2) no_argument)))
   \<and> GetUnsteady_Simulation (the_config
         (main_locals (files_of (OTHER_SOLVER 0) (OTHER_UNSTEADY 0) True 1 2) no_argument))
       \<noteq> HARMONIC_BALANCE
   \<and> New_Driver \<lparr>dclass = CFSIDriver, confFile = ''default.cfg'', val_nZone = 2, val_nDim = 3\<rparr>
       \<in> set (fst (main (files_of (OTHER_SOLVER 0) (OTHER_UNSTEADY 0) True 1 2) no_argument))"
proof -
  have h: "the_nZone (main_locals (files_of (OTHER_SOLVER 0) (OTHER_UNSTEADY 0) True 1 2) no_argument) = 2"
    "the_fsi (main_locals (files_of (OTHER_SOLVER 0) (OTHER_UNSTEADY 0) True 1 2) no_argument)"
    "\<not> single_zone_only (GetKind_Solver (the_config
         (main_locals (files_of (OTHER_SOLVER 0) (OTHER_UNSTEADY 0) True 1 2) no_argument)))"
    "GetUnsteady_Simulation (the_config
         (main_locals (files_of (OTHER_SOLVER 0) (OTHER_UNSTEADY 0) True 1 2) no_argument))
       \<noteq> HARMONIC_BALANCE"
    by (simp_all add: main_locals_def files_of_def config_of_def single_zone_only_def)
  from fsi_selection [OF h] h show ?thesis
    by (simp add: main_locals_def files_of_def config_of_def no_argument_def)
qed

text \<open>
  C3. When the solver kind is one of the single-zone kinds (structural, Poisson, wave, heat)
  and the zone count is above one, the run of \<open>main\<close> is: the configuration is read, the
  message is printed, \<open>exit(EXIT_FAILURE)\<close>. The status is not the success status, and
  no event of the run touches a driver: none is constructed, none solves or postprocesses.
\<close>

theorem single_zone_solver_multizone_aborts:
  assumes "single_zone_only (GetKind_Solver (the_config (main_locals fs argv)))"
    and "the_nZone (main_locals fs argv) > 1"
  shows "main fs argv =
      ([New_CConfig (the_config_file_name (main_locals fs argv)),
        Cout ''The required solver doesn't support multizone simulations'',
        Exit EXIT_FAILURE], EXIT_FAILURE)
    \<and> EXIT_FAILURE \<noteq> EXIT_SUCCESS
    \<and> (\<forall>e \<in> set (fst (main fs argv)). \<not> driver_event e)"
  using assms by (simp add: main_fatal EXIT_FAILURE_def EXIT_SUCCESS_def)

theorem single_zone_solver_multizone_aborts_witness:
  "single_zone_only (GetKind_Solver (the_config
      (main_locals (files_of FEM_ELASTICITY (OTHER_UNSTEADY 0) False 1 2) no_argument)))
   \<and> the_nZone (main_locals (files_of FEM_ELASTICITY (OTHER_UNSTEADY 0) False 1 2) no_argument) > 1
   \<and> main (files_of FEM_ELASTICITY (OTHER_UNSTEADY 0) False 1 2) no_argument =
      ([New_CConfig ''default.cfg'',
        Cout ''The required solver doesn't support multizone simulations'',
        Exit 1], 1)"
proof -
  have h: "single_zone_only (GetKind_Solver (the_config
      (main_locals (files_of FEM_ELASTICITY (OTHER_UNSTEADY 0) False 1 2) no_argument)))"
    "the_nZone (main_locals (files_of FEM_ELASTICITY (OTHER_UNSTEADY 0) False 1 2) no_argument) > 1"
    by (simp_all add: main_locals_def files_of_def config_of_def single_zone_only_def)
  from single_zone_solver_multizone_aborts [OF h] h show ?thesis
    by (simp add: main_locals_def files_of_def config_of_def no_argument_def EXIT_FAILURE_def)
qed

text \<open>
  C4, as stated, fails, on two counts. In harmonic balance mode with two zones, a solver
  kind of the first branch (here the heat equation) ends the run with the fatal error: no
  multi-zone harmonic balance driver. And the product of the time instances per zone and
  the zone count is stored in an \<open>unsigned short\<close>: with 256 instances and 256 zones
  the driver is constructed with 0 instances, not with 65536.
\<close>

theorem multizone_hb_counterexample:
  "main (files_of HEAT_EQUATION HARMONIC_BALANCE False 3 2) no_argument =
     ([New_CConfig ''default.cfg'',
       Cout ''The required solver doesn't support multizone simulations'',
       Exit 1], 1)
   \<and> main (files_of (OTHER_SOLVER 0) HARMONIC_BALANCE False 256 256) no_argument =
       ([New_CConfig ''default.cfg'',
         New_Driver \<lparr>dclass = CGeneralHBDriver, confFile = ''default.cfg'', val_nZone = 0, val_nDim = 3\<rparr>,
         Delete_CConfig,
         StartSolver \<lparr>dclass = CGeneralHBDriver, confFile = ''default.cfg'', val_nZone = 0, val_nDim = 3\<rparr>,
         Postprocessing \<lparr>dclass = CGeneralHBDriver, confFile = ''default.cfg'', val_nZone = 0, val_nDim = 3\<rparr>,
         Delete_Driver \<lparr>dclass = CGeneralHBDriver, confFile = ''default.cfg'', val_nZone = 0, val_nDim = 3\<rparr>,
         Return 0], 0)
   \<and> unat (256 :: ushort) * unat (256 :: ushort) = 65536"
  by (simp add: concrete_run)

text \<open>
  C4, amended. In harmonic balance mode with a zone count above one and a solver kind
  outside the single-zone kinds, the selection is \<open>CGeneralHBDriver\<close>, and \<open>main\<close>
  constructs it with the product of the time instances per zone and the zone count in
  16-bit arithmetic: the product modulo \<open>2^16\<close>, which is the product itself whenever
  that is below 65536.
\<close>

theorem multizone_hb_selection:
  assumes "GetUnsteady_Simulation (the_config (main_locals fs argv)) = HARMONIC_BALANCE"
    and "the_nZone (main_locals fs argv) > 1"
    and "\<not> single_zone_only (GetKind_Solver (the_config (main_locals fs argv)))"
  shows "driver_selection (the_config (main_locals fs argv)) (the_nZone (main_locals fs argv))
           (the_fsi (main_locals fs argv)) = CGeneralHBDriver
     \<and> New_Driver \<lparr>dclass = CGeneralHBDriver, confFile = the_config_file_name (main_locals fs argv),
          val_nZone = GetnTimeInstances (the_config (main_locals fs argv)) * the_nZone (main_locals fs argv),
          val_nDim = the_nDim (main_locals fs argv)\<rparr> \<in> set (fst (main fs argv))
     \<and> unat (GetnTimeInstances (the_config (main_locals fs argv)) * the_nZone (main_locals fs argv))
         = (unat (GetnTimeInstances (the_config (main_locals fs argv)))
             * unat (the_nZone (main_locals fs argv))) mod 65536
     \<and> (unat (GetnTimeInstances (the_config (main_locals fs argv)))
             * unat (the_nZone (main_locals fs argv)) < 65536 \<longrightarrow>
        unat (GetnTimeInstances (the_config (main_locals fs argv)) * the_nZone (main_locals fs argv))
         = unat (GetnTimeInstances (the_config (main_locals fs argv)))
             * unat (the_nZone (main_locals fs argv)))"
proof -
  have sel: "driver_selection (the_config (main_locals fs argv)) (the_nZone (main_locals fs argv))
           (the_fsi (main_locals fs argv)) = CGeneralHBDriver"
    using assms by (auto simp add: driver_selection_def)
  have "\<not> (single_zone_only (GetKind_Solver (the_config (main_locals fs argv)))
             \<and> the_nZone (main_locals fs argv) > 1)"
    using assms by simp
  from main_normal [OF this refl refl refl] sel
  have new: "New_Driver \<lparr>dclass = CGeneralHBDriver, confFile = the_config_file_name (main_locals fs argv),
          val_nZone = GetnTimeInstances (the_config (main_locals fs argv)) * the_nZone (main_locals fs argv),
          val_nDim = the_nDim (main_locals fs argv)\<rparr> \<in> set (fst (main fs argv))"
    by simp
  have wrap: "unat (a * b) = (unat a * unat b) mod 65536" for a b :: ushort
    by (simp add: unat_word_ariths)
  from sel new wrap show ?thesis by simp
qed

theorem multizone_hb_selection_witness:
  "GetUnsteady_Simulation (the_config
      (main_locals (files_of (OTHER_SOLVER 0) HARMONIC_BALANCE False 5 3) no_argument)) = HARMONIC_BALANCE
   \<and> the_nZone (main_locals (files_of (OTHER_SOLVER 0) HARMONIC_BALANCE False 5 3) no_argument) > 1
   \<and> \<not> single_zone_only (GetKind_Solver (the_config
      (main_locals (files_of (OTHER_SOLVER 0) HARMONIC_BALANCE False 5 3) no_argument)))
   \<and> New_Driver \<lparr>dclass = CGeneralHBDriver, confFile = ''default.cfg'', val_nZone = 15, val_nDim = 3\<rparr>
       \<in> set (fst (main (files_of (OTHER_SOLVER 0) HARMONIC_BALANCE False 5 3) no_argument))
   \<and> unat (5 * 3 :: ushort) = 15"
proof -
  have h: "GetUnsteady_Simulation (the_config
      (main_locals (files_of (OTHER_SOLVER 0) HARMONIC_BALANCE False 5 3) no_argument)) = HARMONIC_BALANCE"
   "the_nZone (main_locals (files_of (OTHER_SOLVER 0) HARMONIC_BALANCE False 5 3) no_argument) > 1"
   "\<not> single_zone_only (GetKind_Solver (the_config
      (main_locals (files_of (OTHER_SOLVER 0) HARMONIC_BALANCE False 5 3) no_argument)))"
    by (simp_all add: main_locals_def files_of_def config_of_def single_zone_only_def)
  from multizone_hb_selection [OF h] h show ?thesis
    by (simp add: main_locals_def files_of_def config_of_def no_argument_def)
qed

text \<open>
  C5. In every run of \<open>main\<close>, whichever of its calls raise a fatal error: if \<open>main\<close>
  returns, it returns \<open>EXIT_SUCCESS\<close>, which is 0, no call has raised a fatal error and
  no \<open>exit\<close> took place; a step that ends the process, the \<open>exit\<close> of line 86 or a
  fatal error inside a call, is the last step of the run, its ending is the ending of the
  process, and \<open>main\<close> never reaches \<open>return\<close>; the status of the \<open>exit\<close> of line 86
  is \<open>EXIT_FAILURE\<close>, not 0; a process that ends before \<open>return\<close> ends with a non-zero
  status or an abort; the mismatch of zone count and solver kind ends it with
  \<open>EXIT_FAILURE\<close>; and when no call raises a fatal error the run is the one of \<open>main\<close>
  above.
\<close>

theorem process_exit_status:
  "(\<forall>c. snd (main_process faults fs argv) = Returned c \<longrightarrow>
       c = EXIT_SUCCESS \<and> EXIT_SUCCESS = 0
       \<and> (\<forall>site. faults site = None)
       \<and> (\<forall>s \<in> set (fst (main_process faults fs argv)). ending_of s = None)
       \<and> last (fst (main_process faults fs argv)) = Did (Return EXIT_SUCCESS))
   \<and> (\<forall>s \<in> set (fst (main_process faults fs argv)). \<forall>e. ending_of s = Some e \<longrightarrow>
         snd (main_process faults fs argv) = Ended e
         \<and> last (fst (main_process faults fs argv)) = s
         \<and> (\<forall>s' \<in> set (butlast (fst (main_process faults fs argv))). ending_of s' = None)
         \<and> (\<forall>c. Did (Return c) \<notin> set (fst (main_process faults fs argv))))
   \<and> (\<forall>e. snd (main_process faults fs argv) = Ended e \<longrightarrow>
         ending_of (last (fst (main_process faults fs argv))) = Some e)
   \<and> (\<forall>c. Did (Exit c) \<in> set (fst (main_process faults fs argv)) \<longrightarrow>
         c = EXIT_FAILURE \<and> c \<noteq> 0)
   \<and> (\<forall>e. snd (main_process faults fs argv) = Ended e \<longrightarrow>
         nonzero_or_abort e \<and> (e = Exit_With EXIT_FAILURE \<or> e = Abort))
   \<and> (faults Call_New_CConfig = None \<and> faults Call_GetnZone = None \<and> faults Call_GetnDim = None
        \<and> single_zone_only (GetKind_Solver (the_config (main_locals fs argv)))
        \<and> the_nZone (main_locals fs argv) > 1 \<longrightarrow>
        snd (main_process faults fs argv) = Ended (Exit_With EXIT_FAILURE))
   \<and> ((\<forall>site. faults site = None) \<longrightarrow>
        fst (main_process faults fs argv) = map Did (fst (main fs argv)))"
proof -
  let ?tr = "fst (main_process faults fs argv)" and ?res = "snd (main_process faults fs argv)"
  let ?fatal = "single_zone_only (GetKind_Solver (the_config (main_locals fs argv)))
        \<and> the_nZone (main_locals fs argv) > 1"
  have returned: "(\<forall>site. faults site = None) \<and> \<not> ?fatal" if "?res = Returned c" for c
  proof -
    from that have sites: "faults Call_New_CConfig = None" "faults Call_GetnZone = None"
      "faults Call_GetnDim = None" "faults Call_New_Driver = None"
      "faults Call_Delete_CConfig = None" "faults Call_StartSolver = None"
      "faults Call_Postprocessing = None" "faults Call_Delete_Driver = None" and nf: "\<not> ?fatal"
      by (auto simp add: main_process_cases Let_def split: option.splits if_splits)
    have "faults site = None" for site by (cases site) (simp_all add: sites)
    with nf show ?thesis by simp
  qed
  have c1: "\<forall>c. ?res = Returned c \<longrightarrow>
       c = EXIT_SUCCESS \<and> EXIT_SUCCESS = 0
       \<and> (\<forall>site. faults site = None)
       \<and> (\<forall>s \<in> set ?tr. ending_of s = None)
       \<and> last ?tr = Did (Return EXIT_SUCCESS)"
  proof (intro allI impI)
    fix c assume r: "?res = Returned c"
    from returned [OF r] have nofault: "\<forall>site. faults site = None" and nf: "\<not> ?fatal" by simp_all
    from nofault nf r show "c = EXIT_SUCCESS \<and> EXIT_SUCCESS = 0
       \<and> (\<forall>site. faults site = None)
       \<and> (\<forall>s \<in> set ?tr. ending_of s = None)
       \<and> last ?tr = Did (Return EXIT_SUCCESS)"
      by (auto simp add: main_process_cases Let_def EXIT_SUCCESS_def)
  qed
  have c2: "\<forall>s \<in> set ?tr. \<forall>e. ending_of s = Some e \<longrightarrow>
         ?res = Ended e \<and> last ?tr = s
         \<and> (\<forall>s' \<in> set (butlast ?tr). ending_of s' = None)
         \<and> (\<forall>c. Did (Return c) \<notin> set ?tr)"
    by (auto simp add: main_process_cases Let_def split: option.splits if_splits)
  have c3: "\<forall>e. ?res = Ended e \<longrightarrow> ending_of (last ?tr) = Some e"
    by (auto simp add: main_process_cases Let_def split: option.splits if_splits)
  have c4: "\<forall>c. Did (Exit c) \<in> set ?tr \<longrightarrow> c = EXIT_FAILURE \<and> c \<noteq> 0"
    by (auto simp add: main_process_cases Let_def EXIT_FAILURE_def split: option.splits if_splits)
  have r: "nonzero_or_abort (raised f) \<and> (raised f = Exit_With EXIT_FAILURE \<or> raised f = Abort)" for f
    by (cases f) (simp_all add: nonzero_or_abort_def EXIT_FAILURE_def)
  have c5: "\<forall>e. ?res = Ended e \<longrightarrow>
         nonzero_or_abort e \<and> (e = Exit_With EXIT_FAILURE \<or> e = Abort)"
    using r
    by (auto simp add: main_process_cases Let_def EXIT_FAILURE_def nonzero_or_abort_def
        split: option.splits if_splits)
  have c6: "faults Call_New_CConfig = None \<and> faults Call_GetnZone = None \<and> faults Call_GetnDim = None
        \<and> ?fatal \<longrightarrow> ?res = Ended (Exit_With EXIT_FAILURE)"
    by (simp add: main_process_cases Let_def)
  have c7: "(\<forall>site. faults site = None) \<longrightarrow> ?tr = map Did (fst (main fs argv))"
  proof (cases ?fatal)
    case True
    then show ?thesis by (simp add: main_process_cases Let_def main_fatal)
  next
    case False
    then show ?thesis
      by (auto simp add: main_process_cases Let_def main_normal [OF False refl refl refl])
  qed
  from c1 c2 c3 c4 c5 c6 c7 show ?thesis by blast
qed

theorem process_exit_status_witness:
  "main_process mesh_unreadable (files_of (OTHER_SOLVER 0) (OTHER_UNSTEADY 0) False 1 1) no_argument
       = ([Did (New_CConfig ''default.cfg''), Failed Call_GetnZone (Exit_With 1)], Ended (Exit_With 1))
   \<and> nonzero_or_abort (Exit_With 1)
   \<and> snd (main_process inverted_element (files_of (OTHER_SOLVER 0) (OTHER_UNSTEADY 0) False 1 1)
        no_argument) = Ended Abort
   \<and> nonzero_or_abort Abort
   \<and> snd (main_process no_fault (files_of WAVE_EQUATION (OTHER_UNSTEADY 0) False 1 2) no_argument)
       = Ended (Exit_With 1)
   \<and> snd (main_process no_fault (files_of WAVE_EQUATION (OTHER_UNSTEADY 0) False 1 1) no_argument)
       = Returned 0
   \<and> (\<forall>site. no_fault site = None)"
proof -
  have run: "main_process mesh_unreadable (files_of (OTHER_SOLVER 0) (OTHER_UNSTEADY 0) False 1 1) no_argument
       = ([Did (New_CConfig ''default.cfg''), Failed Call_GetnZone (Exit_With 1)], Ended (Exit_With 1))"
    by (simp add: main_process_def external_def mesh_unreadable_def main_locals_def files_of_def
        config_of_def no_argument_def EXIT_FAILURE_def)
  have ab: "snd (main_process inverted_element (files_of (OTHER_SOLVER 0) (OTHER_UNSTEADY 0) False 1 1)
        no_argument) = Ended Abort"
    by (simp add: main_process_def external_def inverted_element_def concrete_run)
  have own: "snd (main_process no_fault (files_of WAVE_EQUATION (OTHER_UNSTEADY 0) False 1 2) no_argument)
       = Ended (Exit_With 1)"
    and ok: "snd (main_process no_fault (files_of WAVE_EQUATION (OTHER_UNSTEADY 0) False 1 1) no_argument)
       = Returned 0"
    by (simp_all add: main_process_def external_def no_fault_def concrete_run)
  from process_exit_status
    [of mesh_unreadable "files_of (OTHER_SOLVER 0) (OTHER_UNSTEADY 0) False 1 1" no_argument] run
  have nz: "nonzero_or_abort (Exit_With 1)" by simp
  from process_exit_status
    [of inverted_element "files_of (OTHER_SOLVER 0) (OTHER_UNSTEADY 0) False 1 1" no_argument] ab
  have na: "nonzero_or_abort Abort" by simp
  from process_exit_status
    [of no_fault "files_of WAVE_EQUATION (OTHER_UNSTEADY 0) False 1 1" no_argument] ok
  have nf: "\<forall>site. no_fault site = None" by simp
  from run ab own ok nz na nf show ?thesis by blast
qed

subsection \<open>Life of the driver\<close>




text \<open>
  C10. In every run of \<open>main\<close>: when \<open>StartSolver\<close> is called, the configuration
  object has been deleted before; a driver that is constructed receives the file name, the
  zone or time instance count of its branch and the dimension, and nothing else; and two
  runs that agree on the file name, the dimension, the selected class and that count are
  the same run, whatever else their configuration objects hold. (What the driver classes
  do with the file name is outside this file.)
\<close>

theorem config_deleted_before_solver:
  "(\<forall>d. StartSolver d \<in> set (fst (main fs argv)) \<longrightarrow>
      Delete_CConfig \<in> set (takeWhile (\<lambda>e. \<not> is_StartSolver e) (fst (main fs argv))))
   \<and> (\<forall>d. New_Driver d \<in> set (fst (main fs argv)) \<longrightarrow>
        d = \<lparr>dclass = driver_selection (the_config (main_locals fs argv))
                 (the_nZone (main_locals fs argv)) (the_fsi (main_locals fs argv)),
             confFile = the_config_file_name (main_locals fs argv),
             val_nZone = instances (driver_selection (the_config (main_locals fs argv))
                 (the_nZone (main_locals fs argv)) (the_fsi (main_locals fs argv)))
                 (the_config (main_locals fs argv)) (the_nZone (main_locals fs argv)),
             val_nDim = the_nDim (main_locals fs argv)\<rparr>)
   \<and> (\<forall>fs' argv'.
        the_config_file_name (main_locals fs' argv') = the_config_file_name (main_locals fs argv)
        \<and> the_nDim (main_locals fs' argv') = the_nDim (main_locals fs argv)
        \<and> driver_selection (the_config (main_locals fs' argv'))
                 (the_nZone (main_locals fs' argv')) (the_fsi (main_locals fs' argv'))
          = driver_selection (the_config (main_locals fs argv))
                 (the_nZone (main_locals fs argv)) (the_fsi (main_locals fs argv))
        \<and> instances (driver_selection (the_config (main_locals fs' argv'))
                 (the_nZone (main_locals fs' argv')) (the_fsi (main_locals fs' argv')))
                 (the_config (main_locals fs' argv')) (the_nZone (main_locals fs' argv'))
          = instances (driver_selection (the_config (main_locals fs argv))
                 (the_nZone (main_locals fs argv)) (the_fsi (main_locals fs argv)))
                 (the_config (main_locals fs argv)) (the_nZone (main_locals fs argv))
        \<longrightarrow> main fs' argv' = main fs argv)"
proof (intro conjI allI impI)
  fix d
  assume "StartSolver d \<in> set (fst (main fs argv))"
  then show "Delete_CConfig \<in> set (takeWhile (\<lambda>e. \<not> is_StartSolver e) (fst (main fs argv)))"
  proof (cases "single_zone_only (GetKind_Solver (the_config (main_locals fs argv)))
             \<and> the_nZone (main_locals fs argv) > 1")
    case True
    then show ?thesis using \<open>StartSolver d \<in> set (fst (main fs argv))\<close>
      by (simp add: main_fatal)
  next
    case False
    then show ?thesis by (simp add: main_normal [OF False refl refl refl])
  qed
next
  fix d
  assume new: "New_Driver d \<in> set (fst (main fs argv))"
  show "d = \<lparr>dclass = driver_selection (the_config (main_locals fs argv))
                 (the_nZone (main_locals fs argv)) (the_fsi (main_locals fs argv)),
             confFile = the_config_file_name (main_locals fs argv),
             val_nZone = instances (driver_selection (the_config (main_locals fs argv))
                 (the_nZone (main_locals fs argv)) (the_fsi (main_locals fs argv)))
                 (the_config (main_locals fs argv)) (the_nZone (main_locals fs argv)),
             val_nDim = the_nDim (main_locals fs argv)\<rparr>"
  proof (cases "single_zone_only (GetKind_Solver (the_config (main_locals fs argv)))
             \<and> the_nZone (main_locals fs argv) > 1")
    case True
    then show ?thesis using new by (simp add: main_fatal)
  next
    case False
    then show ?thesis using new by (simp add: main_normal [OF False refl refl refl])
  qed
next
  fix fs' argv'
  assume same: "the_config_file_name (main_locals fs' argv') = the_config_file_name (main_locals fs argv)
        \<and> the_nDim (main_locals fs' argv') = the_nDim (main_locals fs argv)
        \<and> driver_selection (the_config (main_locals fs' argv'))
                 (the_nZone (main_locals fs' argv')) (the_fsi (main_locals fs' argv'))
          = driver_selection (the_config (main_locals fs argv))
                 (the_nZone (main_locals fs argv)) (the_fsi (main_locals fs argv))
        \<and> instances (driver_selection (the_config (main_locals fs' argv'))
                 (the_nZone (main_locals fs' argv')) (the_fsi (main_locals fs' argv')))
                 (the_config (main_locals fs' argv')) (the_nZone (main_locals fs' argv'))
          = instances (driver_selection (the_config (main_locals fs argv))
                 (the_nZone (main_locals fs argv)) (the_fsi (main_locals fs argv)))
                 (the_config (main_locals fs argv)) (the_nZone (main_locals fs argv))"
  then have s1: "the_config_file_name (main_locals fs' argv') = the_config_file_name (main_locals fs argv)"
    and s2: "the_nDim (main_locals fs' argv') = the_nDim (main_locals fs argv)"
    and s3: "driver_selection (the_config (main_locals fs' argv'))
                 (the_nZone (main_locals fs' argv')) (the_fsi (main_locals fs' argv'))
          = driver_selection (the_config (main_locals fs argv))
                 (the_nZone (main_locals fs argv)) (the_fsi (main_locals fs argv))"
    and s4: "instances (driver_selection (the_config (main_locals fs' argv'))
                 (the_nZone (main_locals fs' argv')) (the_fsi (main_locals fs' argv')))
                 (the_config (main_locals fs' argv')) (the_nZone (main_locals fs' argv'))
          = instances (driver_selection (the_config (main_locals fs argv))
                 (the_nZone (main_locals fs argv)) (the_fsi (main_locals fs argv)))
                 (the_config (main_locals fs argv)) (the_nZone (main_locals fs argv))"
    by blast+
  have fatal_eq:
    "(single_zone_only (GetKind_Solver (the_config (main_locals fs' argv')))
        \<and> the_nZone (main_locals fs' argv') > 1)
     \<longleftrightarrow> (single_zone_only (GetKind_Solver (the_config (main_locals fs argv)))
        \<and> the_nZone (main_locals fs argv) > 1)"
    using s3 s4 by (rule fatal_same)
  show "main fs' argv' = main fs argv"
  proof (cases "single_zone_only (GetKind_Solver (the_config (main_locals fs argv)))
             \<and> the_nZone (main_locals fs argv) > 1")
    case True
    with fatal_eq have "single_zone_only (GetKind_Solver (the_config (main_locals fs' argv')))
        \<and> the_nZone (main_locals fs' argv') > 1"
      by simp
    with True s1 show ?thesis by (simp add: main_fatal)
  next
    case False
    with fatal_eq have False': "\<not> (single_zone_only (GetKind_Solver (the_config (main_locals fs' argv')))
        \<and> the_nZone (main_locals fs' argv') > 1)"
      by simp
    show ?thesis
      unfolding main_normal [OF False refl refl refl] main_normal [OF False' refl refl refl]
      by (simp only: s1 s2 s4, simp only: s3)
  qed
qed

theorem config_deleted_before_solver_witness:
  "StartSolver \<lparr>dclass = CHBDriver, confFile = ''wing.cfg'', val_nZone = 9, val_nDim = 3\<rparr>
     \<in> set (fst (main (files_of (OTHER_SOLVER 0) HARMONIC_BALANCE False 9 1) [''SU2_CFD'', ''wing.cfg'']))
   \<and> Delete_CConfig \<in> set (takeWhile (\<lambda>e. \<not> is_StartSolver e)
       (fst (main (files_of (OTHER_SOLVER 0) HARMONIC_BALANCE False 9 1) [''SU2_CFD'', ''wing.cfg''])))
   \<and> main (files_of (OTHER_SOLVER 5) HARMONIC_BALANCE True 9 1) [''SU2_CFD'', ''wing.cfg'']
     = main (files_of (OTHER_SOLVER 0) HARMONIC_BALANCE False 9 1) [''SU2_CFD'', ''wing.cfg'']"
  using config_deleted_before_solver
    [of "files_of (OTHER_SOLVER 0) HARMONIC_BALANCE False 9 1" "[''SU2_CFD'', ''wing.cfg'']"]
  by (simp add: concrete_run)

section \<open>Properties of the mesh deformation driver\<close>

subsection \<open>The preprocessing pipeline\<close>

lemma stage_log_lifetime: "stage_log (lifetime d calls) = stage_log d"
  unfolding lifetime_def
proof (induction calls arbitrary: d)
  case Nil
  show ?case by simp
next
  case (Cons c calls)
  have "stage_log (call d c) = stage_log d" by (cases c) simp_all
  with Cons show ?case by simp
qed

lemma new_cases:
  "CDeformationDriver_new fails =
    (if fails Input_Preprocessing then Inl (Fatal Input_Preprocessing, [SetContainers_Null])
     else if fails Geometrical_Preprocessing
       then Inl (Fatal Geometrical_Preprocessing, [SetContainers_Null, Input_Preprocessing])
     else if fails Output_Preprocessing
       then Inl (Fatal Output_Preprocessing,
                 [SetContainers_Null, Input_Preprocessing, Geometrical_Preprocessing])
     else if fails Solver_Preprocessing
       then Inl (Fatal Solver_Preprocessing,
                 [SetContainers_Null, Input_Preprocessing, Geometrical_Preprocessing,
                  Output_Preprocessing])
     else if fails Numerics_Preprocessing
       then Inl (Fatal Numerics_Preprocessing,
                 [SetContainers_Null, Input_Preprocessing, Geometrical_Preprocessing,
                  Output_Preprocessing, Solver_Preprocessing])
     else Inr \<lparr>stage_log = [SetContainers_Null, Input_Preprocessing, Geometrical_Preprocessing,
                     Output_Preprocessing, Solver_Preprocessing, Numerics_Preprocessing],
         populated = [config_container, geometry_container, output_container, solver_container,
                      numerics_container]\<rparr>)"
  by (simp add: CDeformationDriver_new_def run_stage_def)

text \<open>
  C6. A construction that completes has run the six stages in the order
  \<open>SetContainers_Null\<close>, \<open>Input_Preprocessing\<close>, \<open>Geometrical_Preprocessing\<close>,
  \<open>Output_Preprocessing\<close>, \<open>Solver_Preprocessing\<close>, \<open>Numerics_Preprocessing\<close>, each
  once, and no public call of the life of the object adds a stage to that. A construction
  that a stage ends with a fatal error has run the stages before that one, in this order.
  When no stage fails the construction completes. On the constructed object a further call
  of any stage is the call the spec leaves undefined.
\<close>

theorem preprocessing_order:
  "(\<forall>d. CDeformationDriver_new fails = Inr d \<longrightarrow>
      stage_log d = [SetContainers_Null, Input_Preprocessing, Geometrical_Preprocessing,
                     Output_Preprocessing, Solver_Preprocessing, Numerics_Preprocessing]
      \<and> (\<forall>calls. stage_log (lifetime d calls) = stage_log d))
   \<and> (\<forall>f ran. CDeformationDriver_new fails = Inl (f, ran) \<longrightarrow>
        (\<exists>st. f = Fatal st \<and> fails st
           \<and> ran @ [st] = take (Suc (length ran))
               [SetContainers_Null, Input_Preprocessing, Geometrical_Preprocessing,
                Output_Preprocessing, Solver_Preprocessing, Numerics_Preprocessing]))
   \<and> ((\<forall>st. \<not> fails st) \<longrightarrow> (\<exists>d. CDeformationDriver_new fails = Inr d))
   \<and> (\<forall>d st. CDeformationDriver_new fails = Inr d \<longrightarrow>
        run_stage fails st d = Inl (Undefined st, stage_log d))"
proof (intro conjI allI impI)
  fix d
  assume "CDeformationDriver_new fails = Inr d"
  then show "stage_log d = [SetContainers_Null, Input_Preprocessing, Geometrical_Preprocessing,
                     Output_Preprocessing, Solver_Preprocessing, Numerics_Preprocessing]"
    by (auto simp add: new_cases split: if_splits)
next
  fix d calls
  show "stage_log (lifetime d calls) = stage_log d" by (rule stage_log_lifetime)
next
  fix f ran
  assume "CDeformationDriver_new fails = Inl (f, ran)"
  then show "\<exists>st. f = Fatal st \<and> fails st
           \<and> ran @ [st] = take (Suc (length ran))
               [SetContainers_Null, Input_Preprocessing, Geometrical_Preprocessing,
                Output_Preprocessing, Solver_Preprocessing, Numerics_Preprocessing]"
    by (auto simp add: new_cases split: if_splits)
next
  assume "\<forall>st. \<not> fails st"
  then show "\<exists>d. CDeformationDriver_new fails = Inr d"
    by (simp add: new_cases)
next
  fix d st
  assume "CDeformationDriver_new fails = Inr d"
  then have "populated d = [config_container, geometry_container, output_container, solver_container,
                      numerics_container]"
    by (auto simp add: new_cases split: if_splits)
  then show "run_stage fails st d = Inl (Undefined st, stage_log d)"
    by (cases st) (simp_all add: run_stage_def)
qed

theorem preprocessing_order_witness:
  "CDeformationDriver_new no_stage_fails =
     Inr \<lparr>stage_log = [SetContainers_Null, Input_Preprocessing, Geometrical_Preprocessing,
                     Output_Preprocessing, Solver_Preprocessing, Numerics_Preprocessing],
          populated = [config_container, geometry_container, output_container, solver_container,
                      numerics_container]\<rparr>
   \<and> stage_log (lifetime
        \<lparr>stage_log = [SetContainers_Null, Input_Preprocessing, Geometrical_Preprocessing,
                     Output_Preprocessing, Solver_Preprocessing, Numerics_Preprocessing],
          populated = [config_container, geometry_container, output_container, solver_container,
                      numerics_container]\<rparr> [Run_Call, Output_Call, Postprocessing_Call])
      = [SetContainers_Null, Input_Preprocessing, Geometrical_Preprocessing,
                     Output_Preprocessing, Solver_Preprocessing, Numerics_Preprocessing]
   \<and> CDeformationDriver_new geometry_fails =
       Inl (Fatal Geometrical_Preprocessing, [SetContainers_Null, Input_Preprocessing])"
  using preprocessing_order [of no_stage_fails] preprocessing_order [of geometry_fails]
  by (simp add: CDeformationDriver_new_def run_stage_def no_stage_fails_def geometry_fails_def
      lifetime_def)

subsection \<open>Displacements and normals\<close>

lemma write_displacements_concat:
  "length vals = length vs * n \<Longrightarrow>
   concat (map Bound_Disp (write_displacements n vs vals)) = vals"
proof (induction vs arbitrary: vals)
  case Nil
  then show ?case by simp
next
  case (Cons v vs)
  then have "length (drop n vals) = length vs * n" by simp
  with Cons.IH have "concat (map Bound_Disp (write_displacements n vs (drop n vals))) = drop n vals"
    by blast
  then show ?case by simp
qed

text \<open>
  C7, as stated for every valid marker, fails on a marker that is not deformable, whichever
  way the implementation treats the write: if the write is ignored, the displacements read
  back are the old ones (here zero, not \<open>[1, 2]\<close>); if it is reported as an error, nothing
  is written.
\<close>

theorem displacements_round_trip_counterexample:
  "1 < length (marker plane_mesh)
   \<and> length [1, 2 :: passivedouble] = length (vertex (marker plane_mesh ! 1)) * nDim plane_mesh
   \<and> \<not> halo (vertex (marker plane_mesh ! 1) ! 0)
   \<and> SetDisplacementsMarker Ignore_Write plane_mesh 1 [1, 2] = Inr plane_mesh
   \<and> GetDisplacementsMarker plane_mesh 1 = Inr [0, 0]
   \<and> SetDisplacementsMarker Report_Error plane_mesh 1 [1, 2] = Inl Not_Deformable"
  by (simp add: plane_mesh_def wall_def farfield_def SetDisplacementsMarker_def
      GetDisplacementsMarker_def)

text \<open>
  C7, amended. For every valid deformable marker and every vector of \<open>nVertex*nDim\<close>
  values, \<open>SetDisplacementsMarker\<close> succeeds and \<open>GetDisplacementsMarker\<close> right after
  it returns the vector unchanged; in particular every component of every owned vertex is
  the one that was written.
\<close>

theorem displacements_round_trip:
  assumes "iMarker < length (marker g)"
    and "deformable (marker g ! iMarker)"
    and "length values = length (vertex (marker g ! iMarker)) * nDim g"
  shows "case SetDisplacementsMarker choice g iMarker values of
           Inl e \<Rightarrow> False
         | Inr g' \<Rightarrow>
             GetDisplacementsMarker g' iMarker = Inr values
             \<and> (\<forall>iVertex iDim.
                  iVertex < length (vertex (marker g ! iMarker))
                  \<and> \<not> halo (vertex (marker g ! iMarker) ! iVertex) \<and> iDim < nDim g \<longrightarrow>
                  (case GetDisplacementsMarker g' iMarker of
                     Inl e \<Rightarrow> False
                   | Inr r \<Rightarrow> r ! (iVertex * nDim g + iDim) = values ! (iVertex * nDim g + iDim)))"
  using assms
  by (simp add: SetDisplacementsMarker_def GetDisplacementsMarker_def Let_def
      write_displacements_concat)

theorem displacements_round_trip_witness:
  "0 < length (marker plane_mesh) \<and> deformable (marker plane_mesh ! 0)
   \<and> length [1, 2, 3, 4 :: passivedouble] = length (vertex (marker plane_mesh ! 0)) * nDim plane_mesh
   \<and> (case SetDisplacementsMarker Report_Error plane_mesh 0 [1, 2, 3, 4] of
        Inl e \<Rightarrow> False
      | Inr g' \<Rightarrow> GetDisplacementsMarker g' 0 = Inr [1, 2, 3, 4])"
proof -
  have h: "0 < length (marker plane_mesh)" "deformable (marker plane_mesh ! 0)"
    "length [1, 2, 3, 4 :: passivedouble] = length (vertex (marker plane_mesh ! 0)) * nDim plane_mesh"
    by (simp_all add: plane_mesh_def wall_def)
  from displacements_round_trip [OF h, of Report_Error] h show ?thesis
    by (simp split: sum.splits)
qed

text \<open>
  C9. \<open>GetVertexUnitNormal(m, v)\<close> is \<open>GetVertexNormal(m, v, true)\<close>; \<open>GetVertexNormal\<close>
  called with two arguments is \<open>GetVertexNormal(m, v, false)\<close>, and at a vertex of the
  mesh that is the normal as stored, not normalised.
\<close>

theorem unit_normal_is_normal_true:
  "GetVertexUnitNormal g iMarker iVertex = GetVertexNormal g iMarker iVertex True
   \<and> GetVertexNormal_default g iMarker iVertex = GetVertexNormal g iMarker iVertex False
   \<and> (iMarker < length (marker g) \<and> iVertex < length (vertex (marker g ! iMarker)) \<longrightarrow>
        GetVertexNormal_default g iMarker iVertex
          = Inr (Normal (vertex (marker g ! iMarker) ! iVertex)))"
  by (simp add: GetVertexUnitNormal_def GetVertexNormal_default_def GetVertexNormal_def)

theorem unit_normal_is_normal_true_witness:
  "1 < length (marker plane_mesh) \<and> 0 < length (vertex (marker plane_mesh ! 1))
   \<and> GetVertexNormal_default plane_mesh 1 0 = Inr [3, 0]
   \<and> GetVertexUnitNormal plane_mesh 1 0 = GetVertexNormal plane_mesh 1 0 True"
proof -
  have h: "1 < length (marker plane_mesh)" "0 < length (vertex (marker plane_mesh ! 1))"
    by (simp_all add: plane_mesh_def farfield_def)
  have n: "Normal (vertex (marker plane_mesh ! 1) ! 0) = [3, 0]"
    by (simp add: plane_mesh_def farfield_def)
  from unit_normal_is_normal_true [of plane_mesh 1 0] h
  have "GetVertexNormal_default plane_mesh 1 0 = Inr (Normal (vertex (marker plane_mesh ! 1) ! 0))"
    and "GetVertexUnitNormal plane_mesh 1 0 = GetVertexNormal plane_mesh 1 0 True"
    by blast+
  with h n show ?thesis by simp
qed

end
